theory Spec2Isabelle
  imports Main "HOL-Library.AList"
begin

section \<open>Runtime values\<close>

text \<open>
  The sink receives values of type \<^verbatim>\<open>unknown\<close>.  A value is modelled by its runtime
  shape.  Numbers are the integer-valued doubles of magnitude below 10^21, which
  \<^verbatim>\<open>Number.prototype.toString\<close> writes as plain decimal numerals, plus the three
  non-finite ones (the rendering of a fraction or of a larger number depends on its
  floating-point representation, which is outside this development).  A \<^verbatim>\<open>Date\<close>
  carries its time value, a function its source text, a symbol its description.  Strings
  are lists of characters.  Arrays are dense; objects are plain data objects, given by
  their own enumerable properties in enumeration order, each key once.
\<close>

datatype number = Finite int | NaN | PosInfinity | NegInfinity

datatype Date = ValidDate int | InvalidDate

datatype jsval =
    Undefined
  | Null
  | Bool bool
  | Num number
  | BigInt int
  | Str string
  | Symbol string
  | Function string
  | DateObj Date
  | Arr "jsval list"
  | Obj "(string \<times> jsval) list"

datatype error = TypeError | RangeError

text \<open>The \<^verbatim>\<open>typeof\<close> operator.\<close>

fun typeof :: "jsval \<Rightarrow> string" where
  "typeof Undefined = ''undefined''"
| "typeof Null = ''object''"
| "typeof (Bool b) = ''boolean''"
| "typeof (Num n) = ''number''"
| "typeof (BigInt n) = ''bigint''"
| "typeof (Str s) = ''string''"
| "typeof (Symbol d) = ''symbol''"
| "typeof (Function src) = ''function''"
| "typeof (DateObj d) = ''object''"
| "typeof (Arr vs) = ''object''"
| "typeof (Obj kvs) = ''object''"

text \<open>\<^verbatim>\<open>v == null\<close> holds of \<^verbatim>\<open>null\<close> and \<^verbatim>\<open>undefined\<close> only.\<close>

definition eq_null :: "jsval \<Rightarrow> bool" where
  "eq_null v = (v = Null \<or> v = Undefined)"

fun isArray :: "jsval \<Rightarrow> bool" where
  "isArray (Arr vs) = True"
| "isArray v = False"

section \<open>Platform renderings\<close>

text \<open>Decimal numerals, as \<^verbatim>\<open>Number.prototype.toString\<close> writes these integers.\<close>

fun digits :: "nat \<Rightarrow> string" where
  "digits n =
     (if n < 10 then [''0123456789'' ! n]
      else digits (n div 10) @ [''0123456789'' ! (n mod 10)])"

declare digits.simps [simp del]

definition show_int :: "int \<Rightarrow> string" where
  "show_int k = (if k < 0 then ''-'' @ digits (nat (- k)) else digits (nat k))"

fun Number_toString :: "number \<Rightarrow> string" where
  "Number_toString (Finite k) = show_int k"
| "Number_toString NaN = ''NaN''"
| "Number_toString PosInfinity = ''Infinity''"
| "Number_toString NegInfinity = ''-Infinity''"

definition Boolean_toString :: "bool \<Rightarrow> string" where
  "Boolean_toString b = (if b then ''true'' else ''false'')"

definition pad :: "nat \<Rightarrow> string \<Rightarrow> string" where
  "pad w s = replicate (w - length s) (CHR ''0'') @ s"

text \<open>
  The calendar date of a day number (days since 1 January 1970), in the proleptic
  Gregorian calendar: year, month and day of the month.
\<close>

definition civil_from_days :: "int \<Rightarrow> int \<times> int \<times> int" where
  "civil_from_days days =
     (let z = days + 719468;
          era = z div 146097;
          doe = z mod 146097;
          yoe = (doe - doe div 1460 + doe div 36524 - doe div 146096) div 365;
          doy = doe - (365 * yoe + yoe div 4 - yoe div 100);
          mp = (5 * doy + 2) div 153;
          d = doy - (153 * mp + 2) div 5 + 1;
          m = (if mp < 10 then mp + 3 else mp - 9);
          y = yoe + era * 400 + (if m \<le> 2 then 1 else 0)
      in (y, m, d))"

definition iso_year :: "int \<Rightarrow> string" where
  "iso_year y =
     (if 0 \<le> y \<and> y \<le> 9999 then pad 4 (digits (nat y))
      else (if y < 0 then ''-'' else ''+'') @ pad 6 (digits (nat \<bar>y\<bar>)))"

text \<open>
  \<^verbatim>\<open>Date.prototype.toISOString\<close>: the UTC rendering of a valid date; a
  \<^verbatim>\<open>RangeError\<close> for an invalid one.
\<close>

definition iso_string :: "int \<Rightarrow> string" where
  "iso_string t =
     (let ms = t mod 86400000;
          (y, m, d) = civil_from_days (t div 86400000)
      in iso_year y @ ''-'' @ pad 2 (digits (nat m)) @ ''-'' @ pad 2 (digits (nat d)) @ ''T''
         @ pad 2 (digits (nat (ms div 3600000))) @ '':''
         @ pad 2 (digits (nat (ms div 60000 mod 60))) @ '':''
         @ pad 2 (digits (nat (ms div 1000 mod 60))) @ ''.''
         @ pad 3 (digits (nat (ms mod 1000))) @ ''Z'')"

fun toISOString :: "Date \<Rightarrow> error + string" where
  "toISOString (ValidDate t) = Inr (iso_string t)"
| "toISOString InvalidDate = Inl RangeError"

text \<open>Joining strings with a separator.\<close>

fun intercalate :: "string \<Rightarrow> string list \<Rightarrow> string" where
  "intercalate sep [] = []"
| "intercalate sep [s] = s"
| "intercalate sep (s # t # ss) = s @ sep @ intercalate sep (t # ss)"

subsection \<open>JSON serialization\<close>

definition hex2 :: "nat \<Rightarrow> string" where
  "hex2 n = [''0123456789abcdef'' ! (n div 16), ''0123456789abcdef'' ! (n mod 16)]"

definition quote_char :: "char \<Rightarrow> string" where
  "quote_char c =
     (if c = CHR 0x08 then [CHR 0x5C, CHR ''b'']
      else if c = CHR 0x09 then [CHR 0x5C, CHR ''t'']
      else if c = CHR 0x0A then [CHR 0x5C, CHR ''n'']
      else if c = CHR 0x0C then [CHR 0x5C, CHR ''f'']
      else if c = CHR 0x0D then [CHR 0x5C, CHR ''r'']
      else if c = CHR 0x22 then [CHR 0x5C, CHR 0x22]
      else if c = CHR 0x5C then [CHR 0x5C, CHR 0x5C]
      else if (of_char c :: nat) < 32 then [CHR 0x5C, CHR ''u'', CHR ''0'', CHR ''0''] @ hex2 (of_char c)
      else [c])"

definition QuoteJSONString :: "string \<Rightarrow> string" where
  "QuoteJSONString s = [CHR 0x22] @ concat (map quote_char s) @ [CHR 0x22]"

text \<open>
  \<^verbatim>\<open>JSON.stringify\<close> with one argument.  The result of serializing a value is a
  string, or nothing (\<^verbatim>\<open>undefined\<close>) for \<^verbatim>\<open>undefined\<close>, a function or a symbol, or a
  \<^verbatim>\<open>TypeError\<close> for a BigInt anywhere in the value.  Inside an array a value without
  serialization is written \<^verbatim>\<open>null\<close>; inside an object its property is left out.  A date
  is serialized through its \<^verbatim>\<open>toJSON\<close> method.  Values are finite trees, so the
  \<^verbatim>\<open>TypeError\<close> for a cyclic structure has no counterpart here.
\<close>

fun SerializeJSONProperty :: "jsval \<Rightarrow> error + string option"
  and SerializeJSONArray :: "jsval list \<Rightarrow> error + string list"
  and SerializeJSONObject :: "(string \<times> jsval) list \<Rightarrow> error + string list"
where
  "SerializeJSONProperty Undefined = Inr None"
| "SerializeJSONProperty Null = Inr (Some ''null'')"
| "SerializeJSONProperty (Bool b) = Inr (Some (Boolean_toString b))"
| "SerializeJSONProperty (Num n) =
     Inr (Some (case n of Finite k \<Rightarrow> show_int k | _ \<Rightarrow> ''null''))"
| "SerializeJSONProperty (BigInt n) = Inl TypeError"
| "SerializeJSONProperty (Str s) = Inr (Some (QuoteJSONString s))"
| "SerializeJSONProperty (Symbol d) = Inr None"
| "SerializeJSONProperty (Function src) = Inr None"
| "SerializeJSONProperty (DateObj d) =
     Inr (Some (case d of ValidDate t \<Rightarrow> QuoteJSONString (iso_string t) | InvalidDate \<Rightarrow> ''null''))"
| "SerializeJSONProperty (Arr vs) =
     (case SerializeJSONArray vs of
        Inl e \<Rightarrow> Inl e
      | Inr ss \<Rightarrow> Inr (Some (''['' @ intercalate '','' ss @ '']'')))"
| "SerializeJSONProperty (Obj kvs) =
     (case SerializeJSONObject kvs of
        Inl e \<Rightarrow> Inl e
      | Inr ss \<Rightarrow> Inr (Some (''{'' @ intercalate '','' ss @ ''}'')))"
| "SerializeJSONArray [] = Inr []"
| "SerializeJSONArray (v # vs) =
     (case SerializeJSONProperty v of
        Inl e \<Rightarrow> Inl e
      | Inr so \<Rightarrow>
          (case SerializeJSONArray vs of
             Inl e \<Rightarrow> Inl e
           | Inr ss \<Rightarrow> Inr ((case so of None \<Rightarrow> ''null'' | Some s \<Rightarrow> s) # ss)))"
| "SerializeJSONObject [] = Inr []"
| "SerializeJSONObject ((k, v) # kvs) =
     (case SerializeJSONProperty v of
        Inl e \<Rightarrow> Inl e
      | Inr so \<Rightarrow>
          (case SerializeJSONObject kvs of
             Inl e \<Rightarrow> Inl e
           | Inr ss \<Rightarrow>
               Inr (case so of None \<Rightarrow> ss | Some s \<Rightarrow> (QuoteJSONString k @ '':'' @ s) # ss)))"

definition JSON_stringify :: "jsval \<Rightarrow> error + jsval" where
  "JSON_stringify v =
     (case SerializeJSONProperty v of
        Inl e \<Rightarrow> Inl e
      | Inr None \<Rightarrow> Inr Undefined
      | Inr (Some s) \<Rightarrow> Inr (Str s))"

subsection \<open>The host platform\<close>

text \<open>
  What the code takes from its host: \<^verbatim>\<open>Deno.inspect\<close> where the global \<^verbatim>\<open>Deno\<close>
  exists (it renders every value as a string), and the local-time rendering of a valid
  date by \<^verbatim>\<open>Date.prototype.toString\<close>, which depends on the host's time zone.
\<close>

record platform =
  Deno_inspect :: "(jsval \<Rightarrow> string) option"
  Date_toString :: "int \<Rightarrow> string"

text \<open>
  The conversion of a value to a string (\<^verbatim>\<open>ToString\<close>), as \<^verbatim>\<open>Array.prototype.join\<close>
  applies it: an array is its elements joined by commas, with \<^verbatim>\<open>null\<close> and
  \<^verbatim>\<open>undefined\<close> elements empty; a symbol raises a \<^verbatim>\<open>TypeError\<close>.
\<close>

fun ToString :: "platform \<Rightarrow> jsval \<Rightarrow> error + string"
  and join_elements :: "platform \<Rightarrow> jsval list \<Rightarrow> error + string list"
where
  "ToString p Undefined = Inr ''undefined''"
| "ToString p Null = Inr ''null''"
| "ToString p (Bool b) = Inr (Boolean_toString b)"
| "ToString p (Num n) = Inr (Number_toString n)"
| "ToString p (BigInt n) = Inr (show_int n)"
| "ToString p (Str s) = Inr s"
| "ToString p (Symbol d) = Inl TypeError"
| "ToString p (Function src) = Inr src"
| "ToString p (DateObj d) =
     Inr (case d of ValidDate t \<Rightarrow> Date_toString p t | InvalidDate \<Rightarrow> ''Invalid Date'')"
| "ToString p (Arr vs) =
     (case join_elements p vs of Inl e \<Rightarrow> Inl e | Inr ss \<Rightarrow> Inr (intercalate '','' ss))"
| "ToString p (Obj kvs) = Inr ''[object Object]''"
| "join_elements p [] = Inr []"
| "join_elements p (v # vs) =
     (case (if eq_null v then Inr [] else ToString p v) of
        Inl e \<Rightarrow> Inl e
      | Inr s \<Rightarrow> (case join_elements p vs of Inl e \<Rightarrow> Inl e | Inr ss \<Rightarrow> Inr (s # ss)))"

text \<open>\<^verbatim>\<open>Array.prototype.join\<close> with a separator.\<close>

definition join :: "platform \<Rightarrow> string \<Rightarrow> jsval list \<Rightarrow> error + string" where
  "join p sep vs =
     (case join_elements p vs of Inl e \<Rightarrow> Inl e | Inr ss \<Rightarrow> Inr (intercalate sep ss))"

section \<open>The value stringifier\<close>

datatype ObjectRenderer = Json | Inspect

text \<open>
  The constant \<^verbatim>\<open>inspect\<close>: \<^verbatim>\<open>Deno.inspect\<close> where it exists, otherwise
  \<^verbatim>\<open>JSON.stringify\<close>.  (The middle alternative of the source compares
  \<^verbatim>\<open>globalThis.util.inspect\<close> itself with the string \<^verbatim>\<open>"function"\<close>, which no
  function equals, so that branch selects nothing.)
\<close>

definition inspect :: "platform \<Rightarrow> jsval \<Rightarrow> error + jsval" where
  "inspect p v =
     (case Deno_inspect p of Some f \<Rightarrow> Inr (Str (f v)) | None \<Rightarrow> JSON_stringify v)"

definition convertToString :: "platform \<Rightarrow> ObjectRenderer \<Rightarrow> jsval \<Rightarrow> error + jsval" where
  "convertToString p objectRenderer v =
     (case v of
        Null \<Rightarrow> Inr v
      | Undefined \<Rightarrow> Inr v
      | Str s \<Rightarrow> Inr v
      | _ \<Rightarrow>
          if objectRenderer = Inspect then inspect p v
          else (case v of
                  Num n \<Rightarrow> Inr (Str (Number_toString n))
                | Bool b \<Rightarrow> Inr (Str (Boolean_toString b))
                | DateObj d \<Rightarrow> (case toISOString d of Inl e \<Rightarrow> Inl e | Inr s \<Rightarrow> Inr (Str s))
                | _ \<Rightarrow> JSON_stringify v))"

section \<open>Severity mapping\<close>

text \<open>
  The members of the backend's \<^verbatim>\<open>SeverityNumber\<close> enumeration that the sink uses, and
  their numeric values in the backend's table.
\<close>

datatype SeverityNumber = UNSPECIFIED | DEBUG | INFO | WARN | ERROR | FATAL

fun severity_value :: "SeverityNumber \<Rightarrow> nat" where
  "severity_value UNSPECIFIED = 0"
| "severity_value DEBUG = 5"
| "severity_value INFO = 9"
| "severity_value WARN = 13"
| "severity_value ERROR = 17"
| "severity_value FATAL = 21"

definition mapLevelToSeverityNumber :: "string \<Rightarrow> SeverityNumber" where
  "mapLevelToSeverityNumber lvl =
     (if lvl = ''debug'' then DEBUG
      else if lvl = ''info'' then INFO
      else if lvl = ''warning'' then WARN
      else if lvl = ''error'' then ERROR
      else if lvl = ''fatal'' then FATAL
      else UNSPECIFIED)"

section \<open>The attribute converter\<close>

text \<open>\<^verbatim>\<open>Array.prototype.map\<close> with a callback that may throw: the first error ends it.\<close>

fun Array_map :: "('a \<Rightarrow> error + 'b) \<Rightarrow> 'a list \<Rightarrow> error + 'b list" where
  "Array_map f [] = Inr []"
| "Array_map f (v # vs) =
     (case f v of
        Inl e \<Rightarrow> Inl e
      | Inr s \<Rightarrow> (case Array_map f vs of Inl e \<Rightarrow> Inl e | Inr ss \<Rightarrow> Inr (s # ss)))"

text \<open>
  An attribute object is an association list in insertion order; the assignment
  \<^verbatim>\<open>attributes[key] = x\<close> is \<^const>\<open>AList.update\<close>.

  The inner loop of \<^verbatim>\<open>convertToAttributes\<close> over the elements of an array \<^verbatim>\<open>value\<close>:
  \<^verbatim>\<open>t\<close> is the type of the last element seen that is not \<^verbatim>\<open>null\<close> or \<^verbatim>\<open>undefined\<close>.
  At the first element of another type the loop assigns the stringified array and
  breaks.  The result is the attribute object when the loop is left.
\<close>

fun array_loop ::
  "platform \<Rightarrow> ObjectRenderer \<Rightarrow> string \<Rightarrow> jsval list \<Rightarrow> (string \<times> jsval) list \<Rightarrow>
   string option \<Rightarrow> jsval list \<Rightarrow> error + (string \<times> jsval) list"
where
  "array_loop p objectRenderer key val attributes t [] = Inr attributes"
| "array_loop p objectRenderer key val attributes t (v # vs) =
     (if eq_null v then array_loop p objectRenderer key val attributes t vs
      else if t \<noteq> None \<and> Some (typeof v) \<noteq> t then
        (case Array_map (convertToString p objectRenderer) val of
           Inl e \<Rightarrow> Inl e
         | Inr ss \<Rightarrow> Inr (AList.update key (Arr ss) attributes))
      else array_loop p objectRenderer key val attributes (Some (typeof v)) vs)"

text \<open>
  The outer loop over \<^verbatim>\<open>Object.entries(properties)\<close>.  After the inner loop the raw
  array is assigned, whichever way the inner loop was left.
\<close>

fun entries_loop ::
  "platform \<Rightarrow> ObjectRenderer \<Rightarrow> (string \<times> jsval) list \<Rightarrow> (string \<times> jsval) list \<Rightarrow>
   error + (string \<times> jsval) list"
where
  "entries_loop p objectRenderer attributes [] = Inr attributes"
| "entries_loop p objectRenderer attributes ((name, val) # rest) =
     (let key = ''attributes.'' @ name in
      if eq_null val then entries_loop p objectRenderer attributes rest
      else
        (case val of
           Arr vs \<Rightarrow>
             (case array_loop p objectRenderer key vs attributes None vs of
                Inl e \<Rightarrow> Inl e
              | Inr attributes1 \<Rightarrow>
                  entries_loop p objectRenderer (AList.update key val attributes1) rest)
         | _ \<Rightarrow>
             (case convertToString p objectRenderer val of
                Inl e \<Rightarrow> Inl e
              | Inr encoded \<Rightarrow>
                  if eq_null encoded then entries_loop p objectRenderer attributes rest
                  else entries_loop p objectRenderer (AList.update key encoded attributes) rest)))"

definition convertToAttributes ::
  "platform \<Rightarrow> ObjectRenderer \<Rightarrow> (string \<times> jsval) list \<Rightarrow> error + (string \<times> jsval) list"
where
  "convertToAttributes p objectRenderer properties = entries_loop p objectRenderer [] properties"

section \<open>The message body converter\<close>

text \<open>
  The loop of \<^verbatim>\<open>convertMessageToBody\<close>, with its index \<^verbatim>\<open>i\<close> and the body built so
  far.  The cast \<^verbatim>\<open>message[i] as string\<close> does nothing at run time.
\<close>

function body_loop ::
  "platform \<Rightarrow> ObjectRenderer \<Rightarrow> jsval list \<Rightarrow> nat \<Rightarrow> jsval list \<Rightarrow> error + jsval list"
where
  "body_loop p objectRenderer message i body =
     (if i < length message then
        (let body1 = body @ [message ! i] in
         if length message \<le> i + 1 then Inr body1
         else
           (case convertToString p objectRenderer (message ! (i + 1)) of
              Inl e \<Rightarrow> Inl e
            | Inr s \<Rightarrow> body_loop p objectRenderer message (i + 2) (body1 @ [s])))
      else Inr body)"
  by pat_completeness auto
termination
  by (relation "measure (\<lambda>(p, objectRenderer, message, i, body). length message - i)") auto

declare body_loop.simps [simp del]

definition convertMessageToBody ::
  "platform \<Rightarrow> ObjectRenderer \<Rightarrow> jsval list \<Rightarrow> error + jsval list"
where
  "convertMessageToBody p objectRenderer message = body_loop p objectRenderer message 0 []"

section \<open>The sink\<close>

record LogRecord =
  category :: "string list"
  level :: string
  message :: "jsval list"
  timestamp :: number
  properties :: "(string \<times> jsval) list"

datatype MessageType = StringMessage | ArrayMessage

record OpenTelemetrySinkOptions =
  messageType :: "MessageType option"
  objectRenderer :: "ObjectRenderer option"

record OTLogRecord =
  severityNumber :: SeverityNumber
  severityText :: string
  body :: jsval
  attributes :: "(string \<times> jsval) list"
  timestamp :: Date

text \<open>
  \<^verbatim>\<open>new Date(t)\<close> clips its argument: a number that is not finite or lies more than
  8.64e15 milliseconds from the epoch gives an invalid date.  \<^verbatim>\<open>getTime\<close> reads the
  time value back, \<^verbatim>\<open>NaN\<close> for an invalid date.
\<close>

fun new_Date :: "number \<Rightarrow> Date" where
  "new_Date (Finite t) = (if \<bar>t\<bar> \<le> 8640000000000000 then ValidDate t else InvalidDate)"
| "new_Date NaN = InvalidDate"
| "new_Date PosInfinity = InvalidDate"
| "new_Date NegInfinity = InvalidDate"

fun getTime :: "Date \<Rightarrow> number" where
  "getTime (ValidDate t) = Finite t"
| "getTime InvalidDate = NaN"

text \<open>Reading an array at an index: \<^verbatim>\<open>undefined\<close> (here \<^const>\<open>None\<close>) out of range.\<close>

definition at_index :: "'a list \<Rightarrow> nat \<Rightarrow> 'a option" where
  "at_index xs i = (if i < length xs then Some (xs ! i) else None)"

text \<open>The callback of \<^verbatim>\<open>body.map\<close> in the sink.\<close>

definition null_text :: "jsval \<Rightarrow> jsval" where
  "null_text v = (if v = Undefined then Str ''undefined'' else if v = Null then Str ''null'' else v)"

text \<open>
  The closure \<^verbatim>\<open>sink\<close> returned by \<^verbatim>\<open>getOpenTelemetrySink\<close>, with the options it
  closes over (the renderer is \<^verbatim>\<open>options.objectRenderer ?? "inspect"\<close>).  The logger
  of the provider is the list of the records emitted to it so far; the sink returns that
  list, or the error that a conversion raised before anything was emitted.
\<close>

definition sink ::
  "platform \<Rightarrow> OpenTelemetrySinkOptions \<Rightarrow> LogRecord \<Rightarrow> OTLogRecord list \<Rightarrow>
   error + OTLogRecord list"
where
  "sink p options record emitted =
     (if at_index (category record) 0 = Some ''logtape'' \<and>
         at_index (category record) 1 = Some ''meta'' \<and>
         at_index (category record) 2 = Some ''otel''
      then Inr emitted
      else
        (let renderer = (case objectRenderer options of None \<Rightarrow> Inspect | Some r \<Rightarrow> r);
             severity = mapLevelToSeverityNumber (level record)
         in case convertToAttributes p renderer (properties record) of
              Inl e \<Rightarrow> Inl e
            | Inr attrs0 \<Rightarrow>
                (let attrs = AList.update ''category'' (Arr (map Str (category record))) attrs0
                 in case convertMessageToBody p renderer (message record) of
                      Inl e \<Rightarrow> Inl e
                    | Inr fragments \<Rightarrow>
                        (case (if messageType options = Some ArrayMessage then Inr (Arr fragments)
                               else (case join p [] (map null_text fragments) of
                                       Inl e \<Rightarrow> Inl e
                                     | Inr s \<Rightarrow> Inr (Str s))) of
                           Inl e \<Rightarrow> Inl e
                         | Inr b \<Rightarrow>
                             Inr (emitted @
                                  [\<lparr>severityNumber = severity,
                                    severityText = level record,
                                    body = b,
                                    attributes = attrs,
                                    timestamp = new_Date (LogRecord.timestamp record)\<rparr>])))))"

section \<open>The diagnostic logger adaptor\<close>

text \<open>
  The logging facility's \<^verbatim>\<open>Logger\<close>: \<^verbatim>\<open>getLogger\<close> gives the logger of a category;
  its methods \<^verbatim>\<open>error\<close>, \<^verbatim>\<open>warn\<close>, \<^verbatim>\<open>info\<close> and \<^verbatim>\<open>debug\<close> take a message template
  and properties, and log one record at the level error, warning, info and debug.  A
  logged record is kept with the template as it was passed.
\<close>

record Logger =
  logger_category :: "string list"

record Logged =
  logged_category :: "string list"
  logged_level :: string
  logged_template :: string
  logged_properties :: "(string \<times> jsval) list"

definition getLogger :: "string list \<Rightarrow> Logger" where
  "getLogger cat = \<lparr>logger_category = cat\<rparr>"

definition Logger_log ::
  "string \<Rightarrow> Logger \<Rightarrow> string \<Rightarrow> (string \<times> jsval) list \<Rightarrow> Logged list \<Rightarrow> Logged list"
where
  "Logger_log lvl l template props log =
     log @ [\<lparr>logged_category = logger_category l, logged_level = lvl,
              logged_template = template, logged_properties = props\<rparr>]"

definition Logger_error :: "Logger \<Rightarrow> string \<Rightarrow> (string \<times> jsval) list \<Rightarrow> Logged list \<Rightarrow> Logged list" where
  "Logger_error = Logger_log ''error''"

definition Logger_warn :: "Logger \<Rightarrow> string \<Rightarrow> (string \<times> jsval) list \<Rightarrow> Logged list \<Rightarrow> Logged list" where
  "Logger_warn = Logger_log ''warning''"

definition Logger_info :: "Logger \<Rightarrow> string \<Rightarrow> (string \<times> jsval) list \<Rightarrow> Logged list \<Rightarrow> Logged list" where
  "Logger_info = Logger_log ''info''"

definition Logger_debug :: "Logger \<Rightarrow> string \<Rightarrow> (string \<times> jsval) list \<Rightarrow> Logged list \<Rightarrow> Logged list" where
  "Logger_debug = Logger_log ''debug''"

text \<open>
  \<^verbatim>\<open>String.prototype.replaceAll\<close> for a search string of one character and a
  replacement without \<^verbatim>\<open>$\<close>.
\<close>

definition replaceAll :: "char \<Rightarrow> string \<Rightarrow> string \<Rightarrow> string" where
  "replaceAll c rep s = concat (map (\<lambda>x. if x = c then rep else [x]) s)"

record DiagLoggerAdaptor =
  logger :: Logger

definition new_DiagLoggerAdaptor :: DiagLoggerAdaptor where
  "new_DiagLoggerAdaptor = \<lparr>logger = getLogger [''logtape'', ''meta'', ''otel'']\<rparr>"

definition escape :: "string \<Rightarrow> string" where
  "escape msg = replaceAll (CHR ''}'') ''}}'' (replaceAll (CHR ''{'') ''{{'' msg)"

definition diag_error :: "DiagLoggerAdaptor \<Rightarrow> string \<Rightarrow> jsval list \<Rightarrow> Logged list \<Rightarrow> Logged list" where
  "diag_error this msg vals = Logger_error (logger this) (escape msg @ '': {values}'') [(''values'', Arr vals)]"

definition diag_warn :: "DiagLoggerAdaptor \<Rightarrow> string \<Rightarrow> jsval list \<Rightarrow> Logged list \<Rightarrow> Logged list" where
  "diag_warn this msg vals = Logger_warn (logger this) (escape msg @ '': {values}'') [(''values'', Arr vals)]"

definition diag_info :: "DiagLoggerAdaptor \<Rightarrow> string \<Rightarrow> jsval list \<Rightarrow> Logged list \<Rightarrow> Logged list" where
  "diag_info this msg vals = Logger_info (logger this) (escape msg @ '': {values}'') [(''values'', Arr vals)]"

definition diag_debug :: "DiagLoggerAdaptor \<Rightarrow> string \<Rightarrow> jsval list \<Rightarrow> Logged list \<Rightarrow> Logged list" where
  "diag_debug this msg vals = Logger_debug (logger this) (escape msg @ '': {values}'') [(''values'', Arr vals)]"

definition diag_verbose :: "DiagLoggerAdaptor \<Rightarrow> string \<Rightarrow> jsval list \<Rightarrow> Logged list \<Rightarrow> Logged list" where
  "diag_verbose this msg vals = Logger_debug (logger this) (escape msg @ '': {values}'') [(''values'', Arr vals)]"

section \<open>Reference notions for the properties\<close>

text \<open>
  A host without \<^verbatim>\<open>Deno\<close> whose local time zone is UTC, with the date rendering of
  V8; the concrete platform used below.
\<close>

definition utc_Date_toString :: "int \<Rightarrow> string" where
  "utc_Date_toString t =
     (let ms = t mod 86400000;
          (y, m, d) = civil_from_days (t div 86400000)
      in [''Sun'', ''Mon'', ''Tue'', ''Wed'', ''Thu'', ''Fri'', ''Sat''] ! nat ((t div 86400000 + 4) mod 7)
         @ '' ''
         @ [''Jan'', ''Feb'', ''Mar'', ''Apr'', ''May'', ''Jun'',
            ''Jul'', ''Aug'', ''Sep'', ''Oct'', ''Nov'', ''Dec''] ! nat (m - 1)
         @ '' '' @ pad 2 (digits (nat d))
         @ '' '' @ (if y < 0 then ''-'' else []) @ pad 4 (digits (nat \<bar>y\<bar>))
         @ '' '' @ pad 2 (digits (nat (ms div 3600000)))
         @ '':'' @ pad 2 (digits (nat (ms div 60000 mod 60)))
         @ '':'' @ pad 2 (digits (nat (ms div 1000 mod 60)))
         @ '' GMT+0000 (Coordinated Universal Time)'')"

definition node_utc :: platform where
  "node_utc = \<lparr>Deno_inspect = None, Date_toString = utc_Date_toString\<rparr>"

text \<open>The key under which a property is emitted.\<close>

definition attribute_key :: "string \<Rightarrow> string" where
  "attribute_key name = ''attributes.'' @ name"

text \<open>
  What the entry at index \<^verbatim>\<open>i\<close> of a message contributes to the body: the entry itself
  at an even index, its stringification at an odd one.
\<close>

definition body_entry :: "platform \<Rightarrow> ObjectRenderer \<Rightarrow> jsval list \<Rightarrow> nat \<Rightarrow> error + jsval" where
  "body_entry p r msg i = (if even i then Inr (msg ! i) else convertToString p r (msg ! i))"

text \<open>
  The declared type of a body fragment, \<^verbatim>\<open>string | null | undefined\<close>, with its value
  and with the text that stands for it in a joined body.
\<close>

datatype fragment = Text string | NullFragment | UndefinedFragment

fun fragment_value :: "fragment \<Rightarrow> jsval" where
  "fragment_value (Text s) = Str s"
| "fragment_value NullFragment = Null"
| "fragment_value UndefinedFragment = Undefined"

fun fragment_text :: "fragment \<Rightarrow> string" where
  "fragment_text (Text s) = s"
| "fragment_text NullFragment = ''null''"
| "fragment_text UndefinedFragment = ''undefined''"

text \<open>The first three segments of a category are those of the reserved category.\<close>

definition reserved_prefix :: "string list \<Rightarrow> bool" where
  "reserved_prefix cat = (take 3 cat = [''logtape'', ''meta'', ''otel''])"

text \<open>A message with every template delimiter doubled.\<close>

definition doubled_delimiters :: "string \<Rightarrow> string" where
  "doubled_delimiters msg =
     concat (map (\<lambda>c. if c = CHR ''{'' \<or> c = CHR ''}'' then [c, c] else [c]) msg)"

text \<open>The renderer the sink works with: \<^verbatim>\<open>options.objectRenderer ?? "inspect"\<close>.\<close>

definition chosen_renderer :: "OpenTelemetrySinkOptions \<Rightarrow> ObjectRenderer" where
  "chosen_renderer opts = (case objectRenderer opts of None \<Rightarrow> Inspect | Some r \<Rightarrow> r)"

text \<open>An entry is dropped when it is null or undefined, or a scalar that is stringified so.\<close>

definition dropped :: "platform \<Rightarrow> ObjectRenderer \<Rightarrow> jsval \<Rightarrow> bool" where
  "dropped p r v \<longleftrightarrow>
     eq_null v \<or> (\<not> isArray v \<and> (\<exists>e. convertToString p r v = Inr e \<and> eq_null e))"

section \<open>Facts about the stringifier and the loops\<close>

lemma JSON_stringify_result:
  "JSON_stringify v = Inr x \<Longrightarrow> x = Undefined \<or> (\<exists>s. x = Str s)"
  by (auto simp: JSON_stringify_def split: sum.splits option.splits)

lemma inspect_result:
  "inspect p v = Inr x \<Longrightarrow> x = Undefined \<or> (\<exists>s. x = Str s)"
  by (auto simp: inspect_def split: option.splits dest: JSON_stringify_result)

lemma convertToString_result:
  "convertToString p r v = Inr x \<Longrightarrow> x = Null \<or> x = Undefined \<or> (\<exists>s. x = Str s)"
  by (cases v)
     (auto simp: convertToString_def split: if_splits sum.splits
           dest: JSON_stringify_result inspect_result)

lemma convertToString_fragment:
  "convertToString p r v = Inr x \<Longrightarrow> \<exists>f. x = fragment_value f"
  by (metis convertToString_result fragment_value.simps)

lemma convertToString_Deno:
  "Deno_inspect p = Some f \<Longrightarrow> \<not> eq_null v \<Longrightarrow> \<exists>s. convertToString p Inspect v = Inr (Str s)"
  by (cases v) (auto simp: convertToString_def inspect_def eq_null_def)

lemma array_loop_cases:
  "array_loop p r key val attrs t vs = Inr out \<Longrightarrow>
   out = attrs \<or> (\<exists>ss. out = AList.update key (Arr ss) attrs)"
  by (induction vs arbitrary: t) (auto split: if_splits sum.splits)

lemma array_loop_then_update:
  "array_loop p r key val attrs t vs = Inr out \<Longrightarrow>
   AList.update key v out = AList.update key v attrs"
  by (drule array_loop_cases) auto

lemma entries_loop_null:
  "eq_null val \<Longrightarrow> entries_loop p r attrs ((name, val) # rest) = entries_loop p r attrs rest"
  by simp

lemma entries_loop_array:
  "entries_loop p r attrs ((name, Arr vs) # rest) = Inr out \<Longrightarrow>
   entries_loop p r (AList.update (attribute_key name) (Arr vs) attrs) rest = Inr out"
  by (auto simp: eq_null_def attribute_key_def Let_def array_loop_then_update split: sum.splits)

lemma entries_loop_scalar:
  "\<not> eq_null val \<Longrightarrow> \<not> isArray val \<Longrightarrow>
   entries_loop p r attrs ((name, val) # rest) =
     (case convertToString p r val of
        Inl e \<Rightarrow> Inl e
      | Inr encoded \<Rightarrow>
          entries_loop p r
            (if eq_null encoded then attrs else AList.update (attribute_key name) encoded attrs) rest)"
  by (cases val) (auto simp: attribute_key_def Let_def split: sum.splits)

text \<open>One entry changes the attribute object at its own key only.\<close>

lemma entries_loop_step:
  assumes "entries_loop p r attrs ((name, val) # rest) = Inr out"
  shows "\<exists>attrs'. entries_loop p r attrs' rest = Inr out \<and>
           (attrs' = attrs \<or> (\<exists>x. attrs' = AList.update (attribute_key name) x attrs))"
proof (cases "eq_null val")
  case True
  with assms show ?thesis by (auto simp: entries_loop_null)
next
  case False
  show ?thesis
  proof (cases "isArray val")
    case True
    then obtain vs where "val = Arr vs" by (cases val) auto
    with assms show ?thesis using entries_loop_array by blast
  next
    case notarr: False
    from assms show ?thesis
      unfolding entries_loop_scalar [OF False notarr]
      by (auto split: sum.splits if_splits)
  qed
qed

lemma entries_loop_frame:
  "entries_loop p r attrs props = Inr out \<Longrightarrow>
   k \<notin> attribute_key ` fst ` set props \<Longrightarrow>
   map_of out k = map_of attrs k"
proof (induction props arbitrary: attrs)
  case Nil
  then show ?case by simp
next
  case (Cons a props)
  obtain name val where a: "a = (name, val)" by (cases a)
  from Cons.prems(2) a have k: "k \<noteq> attribute_key name"
    and k': "k \<notin> attribute_key ` fst ` set props" by auto
  from Cons.prems(1) a obtain attrs' where
    rest: "entries_loop p r attrs' props = Inr out"
    and attrs': "attrs' = attrs \<or> (\<exists>x. attrs' = AList.update (attribute_key name) x attrs)"
    using entries_loop_step by blast
  from rest have "map_of out k = map_of attrs' k" using Cons.IH k' by blast
  with attrs' k show ?case by (auto simp: update_conv')
qed

lemma attribute_key_inj [simp]: "attribute_key a = attribute_key b \<longleftrightarrow> a = b"
  by (simp add: attribute_key_def)

lemma entries_loop_keeps_array:
  "entries_loop p r attrs props = Inr out \<Longrightarrow> distinct (map fst props) \<Longrightarrow>
   (name, Arr vs) \<in> set props \<Longrightarrow> map_of out (attribute_key name) = Some (Arr vs)"
proof (induction props arbitrary: attrs)
  case Nil
  then show ?case by simp
next
  case (Cons a props)
  obtain n val where a: "a = (n, val)" by (cases a)
  show ?case
  proof (cases "(name, Arr vs) \<in> set props")
    case True
    from Cons.prems(1) a obtain attrs' where "entries_loop p r attrs' props = Inr out"
      using entries_loop_step by blast
    with True Cons.prems(2) show ?thesis using Cons.IH by simp
  next
    case False
    with Cons.prems(3) a have here: "n = name" "val = Arr vs" by auto
    with Cons.prems(2) a have fresh: "attribute_key name \<notin> attribute_key ` fst ` set props"
      by (force simp: image_iff)
    from Cons.prems(1) a here
    have "entries_loop p r (AList.update (attribute_key name) (Arr vs) attrs) props = Inr out"
      using entries_loop_array by blast
    from entries_loop_frame [OF this fresh] show ?thesis by (simp add: update_conv')
  qed
qed

lemma entries_loop_dropped:
  "dropped p r v \<Longrightarrow>
   entries_loop p r attrs ((name, v) # rest) = entries_loop p r attrs rest"
  unfolding dropped_def
  by (cases "eq_null v") (auto simp: entries_loop_scalar entries_loop_null simp del: entries_loop.simps)

lemma entries_loop_omits:
  "entries_loop p r attrs props = Inr out \<Longrightarrow> distinct (map fst props) \<Longrightarrow>
   (name, v) \<in> set props \<Longrightarrow> dropped p r v \<Longrightarrow>
   map_of attrs (attribute_key name) = None \<Longrightarrow> map_of out (attribute_key name) = None"
proof (induction props arbitrary: attrs)
  case Nil
  then show ?case by simp
next
  case (Cons a props)
  obtain n val where a: "a = (n, val)" by (cases a)
  show ?case
  proof (cases "(name, v) \<in> set props")
    case True
    with Cons.prems(2) a have neq: "attribute_key name \<noteq> attribute_key n" by force
    from Cons.prems(1) a obtain attrs' where
      rest: "entries_loop p r attrs' props = Inr out"
      and attrs': "attrs' = attrs \<or> (\<exists>x. attrs' = AList.update (attribute_key n) x attrs)"
      using entries_loop_step by blast
    from attrs' neq Cons.prems(5) have "map_of attrs' (attribute_key name) = None"
      by (auto simp: update_conv')
    with rest True Cons.prems(2,4) show ?thesis using Cons.IH by simp
  next
    case False
    with Cons.prems(3) a have here: "n = name" "val = v" by auto
    with Cons.prems(2) a have fresh: "attribute_key name \<notin> attribute_key ` fst ` set props"
      by (force simp: image_iff)
    from Cons.prems(1,4) a here have "entries_loop p r attrs props = Inr out"
      by (simp add: entries_loop_dropped del: entries_loop.simps)
    from entries_loop_frame [OF this fresh] Cons.prems(5) show ?thesis by simp
  qed
qed

lemma update_fresh: "k \<notin> fst ` set al \<Longrightarrow> AList.update k v al = al @ [(k, v)]"
  by (induction al) auto

lemma entries_loop_strings:
  "distinct (map fst props) \<Longrightarrow>
   \<forall>(n, v) \<in> set props. \<not> isArray v \<and> (\<exists>s. convertToString p r v = Inr (Str s)) \<Longrightarrow>
   attribute_key ` fst ` set props \<inter> fst ` set attrs = {} \<Longrightarrow>
   \<exists>out. entries_loop p r attrs props = Inr (attrs @ out) \<and>
         map fst out = map attribute_key (map fst props) \<and>
         (\<forall>(n, v) \<in> set props. \<exists>x. map_of out (attribute_key n) = Some x \<and>
                                     convertToString p r v = Inr x)"
proof (induction props arbitrary: attrs)
  case Nil
  then show ?case by simp
next
  case (Cons a props)
  obtain n v where a: "a = (n, v)" by (cases a)
  from Cons.prems(2) a obtain s where notarr: "\<not> isArray v"
    and s: "convertToString p r v = Inr (Str s)" by auto
  from s have notnull: "\<not> eq_null v"
    by (auto simp: eq_null_def convertToString_def)
  from Cons.prems(3) a have fresh: "attribute_key n \<notin> fst ` set attrs" by auto
  let ?attrs = "attrs @ [(attribute_key n, Str s)]"
  have step: "entries_loop p r attrs (a # props) = entries_loop p r ?attrs props"
    using a s fresh by (simp add: entries_loop_scalar [OF notnull notarr] eq_null_def update_fresh
        del: entries_loop.simps)
  have "distinct (map fst props)" using Cons.prems(1) by simp
  moreover have "\<forall>(n, v) \<in> set props. \<not> isArray v \<and> (\<exists>s. convertToString p r v = Inr (Str s))"
    using Cons.prems(2) by simp
  moreover have "attribute_key ` fst ` set props \<inter> fst ` set ?attrs = {}"
    using Cons.prems(1,3) a by (force simp: image_iff)
  ultimately obtain out where
    out: "entries_loop p r ?attrs props = Inr (?attrs @ out)"
    and keys: "map fst out = map attribute_key (map fst props)"
    and vals: "\<forall>(n, v) \<in> set props. \<exists>x. map_of out (attribute_key n) = Some x \<and>
                                     convertToString p r v = Inr x"
    using Cons.IH [of ?attrs] by blast
  let ?out = "(attribute_key n, Str s) # out"
  have "entries_loop p r attrs (a # props) = Inr (attrs @ ?out)"
    using step out by simp
  moreover have "map fst ?out = map attribute_key (map fst (a # props))"
    using keys a by simp
  moreover have "\<forall>(m, w) \<in> set (a # props). \<exists>x. map_of ?out (attribute_key m) = Some x \<and>
                                     convertToString p r w = Inr x"
  proof -
    have "m \<noteq> n" if "(m, w) \<in> set props" for m w
      using that Cons.prems(1) a by force
    with vals s a show ?thesis by auto
  qed
  ultimately show ?case by blast
qed

section \<open>Properties of the severity mapping\<close>

text \<open>
  C3: the severity mapping is a total function on strings.  The five levels debug, info,
  warning, error and fatal go to DEBUG, INFO, WARN, ERROR and FATAL, which are pairwise
  distinct (as members and as numbers) and distinct from UNSPECIFIED; every other string
  goes to UNSPECIFIED.
\<close>

theorem mapLevelToSeverityNumber_table:
  "mapLevelToSeverityNumber ''debug'' = DEBUG \<and>
   mapLevelToSeverityNumber ''info'' = INFO \<and>
   mapLevelToSeverityNumber ''warning'' = WARN \<and>
   mapLevelToSeverityNumber ''error'' = ERROR \<and>
   mapLevelToSeverityNumber ''fatal'' = FATAL \<and>
   distinct (map severity_value [UNSPECIFIED, DEBUG, INFO, WARN, ERROR, FATAL]) \<and>
   (lvl \<notin> {''debug'', ''info'', ''warning'', ''error'', ''fatal''} \<longrightarrow>
      mapLevelToSeverityNumber lvl = UNSPECIFIED)"
  by (simp add: mapLevelToSeverityNumber_def)

theorem mapLevelToSeverityNumber_table_witness:
  "''trace'' \<notin> {''debug'', ''info'', ''warning'', ''error'', ''fatal''} \<and>
   mapLevelToSeverityNumber ''trace'' = UNSPECIFIED"
  using mapLevelToSeverityNumber_table [of "''trace''"] by simp

section \<open>Properties of the attribute converter\<close>

text \<open>
  C1: an array property whose elements are of mixed types is meant to be emitted as the
  array of the stringified elements.  At the properties \<^verbatim>\<open>{xs: [1, "a"]}\<close> under the
  JSON renderer the element renderings are \<^verbatim>\<open>["1", "a"]\<close>, but the attribute that the
  converter returns is the raw array \<^verbatim>\<open>[1, "a"]\<close>: the assignment after the inner loop
  overwrites the stringified array.
\<close>

theorem convertToAttributes_mixed_array_raw:
  "Array_map (convertToString node_utc Json) [Num (Finite 1), Str ''a''] = Inr [Str ''1'', Str ''a''] \<and>
   convertToAttributes node_utc Json [(''xs'', Arr [Num (Finite 1), Str ''a''])] =
     Inr [(''attributes.xs'', Arr [Num (Finite 1), Str ''a''])]"
  by (simp add: convertToAttributes_def convertToString_def eq_null_def show_int_def digits.simps)

text \<open>
  C6: a property that is null or undefined, or a scalar (not an array) whose
  stringification is null or undefined, has no key in the attributes returned, whatever
  the properties and the renderer.
\<close>

theorem convertToAttributes_omits_null:
  assumes "convertToAttributes p r props = Inr out"
    and "distinct (map fst props)"
    and "(name, v) \<in> set props"
    and "eq_null v \<or> (\<not> isArray v \<and> (\<exists>e. convertToString p r v = Inr e \<and> eq_null e))"
  shows "''attributes.'' @ name \<notin> fst ` set out"
proof -
  from assms(4) have "dropped p r v" by (simp add: dropped_def)
  with assms(1-3) have "map_of out (attribute_key name) = None"
    using entries_loop_omits [of p r "[]" props out name v]
    by (simp add: convertToAttributes_def)
  then show ?thesis by (simp add: attribute_key_def map_of_eq_None_iff)
qed

theorem convertToAttributes_omits_null_witness:
  "convertToAttributes node_utc Json
     [(''a'', Null), (''f'', Function ''() => 1''), (''k'', Bool True)] = Inr [(''attributes.k'', Str ''true'')] \<and>
   distinct (map fst [(''a'', Null), (''f'', Function ''() => 1''), (''k'', Bool True)]) \<and>
   (''f'', Function ''() => 1'') \<in> set [(''a'', Null), (''f'', Function ''() => 1''), (''k'', Bool True)] \<and>
   \<not> isArray (Function ''() => 1'') \<and>
   convertToString node_utc Json (Function ''() => 1'') = Inr Undefined \<and> eq_null Undefined \<and>
   ''attributes.f'' \<notin> fst ` set [(''attributes.k'', Str ''true'')]"
proof -
  have run: "convertToAttributes node_utc Json
     [(''a'', Null), (''f'', Function ''() => 1''), (''k'', Bool True)] = Inr [(''attributes.k'', Str ''true'')]"
    by (simp add: convertToAttributes_def convertToString_def eq_null_def JSON_stringify_def
        Boolean_toString_def)
  have str: "convertToString node_utc Json (Function ''() => 1'') = Inr Undefined"
    by (simp add: convertToString_def JSON_stringify_def)
  have "''attributes.'' @ ''f'' \<notin> fst ` set [(''attributes.k'', Str ''true'')]"
    by (rule convertToAttributes_omits_null [OF run, of "''f''" "Function ''() => 1''"])
       (simp_all add: str eq_null_def)
  with run str show ?thesis by (simp add: eq_null_def)
qed

text \<open>
  C7, as stated, fails: under the JSON renderer a function stringifies to undefined, so
  the property \<^verbatim>\<open>f\<close> of \<^verbatim>\<open>{f: () => 1}\<close>, which is not null, undefined or an array, gets
  no key.
\<close>

theorem convertToAttributes_key_per_property_counterexample:
  "\<not> eq_null (Function ''() => 1'') \<and> \<not> isArray (Function ''() => 1'') \<and>
   convertToAttributes node_utc Json [(''f'', Function ''() => 1'')] = Inr []"
  by (simp add: convertToAttributes_def convertToString_def eq_null_def JSON_stringify_def)

text \<open>
  C7, amended: when no property is an array and every property is stringified to a
  string (so none is null or undefined, and no stringification raises), the converter
  returns attributes with exactly one key per property, in order, each the name of the
  property prefixed with \<^verbatim>\<open>attributes.\<close>, and the value at that key is the
  stringification of the property.
\<close>

theorem convertToAttributes_key_per_property:
  assumes "distinct (map fst props)"
    and "\<forall>(n, v) \<in> set props. \<not> isArray v \<and> (\<exists>s. convertToString p r v = Inr (Str s))"
  shows "\<exists>out. convertToAttributes p r props = Inr out \<and>
           map fst out = map (\<lambda>n. ''attributes.'' @ n) (map fst props) \<and>
           (\<forall>(n, v) \<in> set props. \<exists>x. map_of out (''attributes.'' @ n) = Some x \<and>
                                       convertToString p r v = Inr x)"
proof -
  have key: "attribute_key = (\<lambda>n. ''attributes.'' @ n)"
    by (simp add: fun_eq_iff attribute_key_def)
  have "attribute_key ` fst ` set props \<inter> fst ` set ([] :: (string \<times> jsval) list) = {}"
    by simp
  from entries_loop_strings [OF assms this] show ?thesis
    unfolding convertToAttributes_def key append_Nil .
qed

theorem convertToAttributes_key_per_property_witness:
  "distinct (map fst [(''k'', Bool True), (''s'', Str ''x'')]) \<and>
   \<not> isArray (Bool True) \<and> convertToString node_utc Json (Bool True) = Inr (Str ''true'') \<and>
   \<not> isArray (Str ''x'') \<and> convertToString node_utc Json (Str ''x'') = Inr (Str ''x'') \<and>
   (\<exists>out. convertToAttributes node_utc Json [(''k'', Bool True), (''s'', Str ''x'')] = Inr out \<and>
          map fst out = [''attributes.k'', ''attributes.s''])"
proof -
  have d: "distinct (map fst [(''k'', Bool True), (''s'', Str ''x'')])" by simp
  have k: "convertToString node_utc Json (Bool True) = Inr (Str ''true'')"
    by (simp add: convertToString_def Boolean_toString_def)
  have s: "convertToString node_utc Json (Str ''x'') = Inr (Str ''x'')"
    by (simp add: convertToString_def)
  have h: "\<forall>(n, v) \<in> set [(''k'', Bool True), (''s'', Str ''x'')].
      \<not> isArray v \<and> (\<exists>s. convertToString node_utc Json v = Inr (Str s))"
    using k s by simp
  from convertToAttributes_key_per_property [OF d h] d k s show ?thesis by auto
qed

text \<open>
  C10: when the converter returns, every array property has its key, and the value there
  is the array itself, whatever its elements: empty, only null and undefined, or mixed;
  null and undefined elements stay in it.  A property that is itself null or undefined
  has no key.
\<close>

theorem convertToAttributes_array_never_omitted:
  assumes "convertToAttributes p r props = Inr out"
    and "distinct (map fst props)"
  shows "((name, Arr vs) \<in> set props \<longrightarrow> map_of out (''attributes.'' @ name) = Some (Arr vs)) \<and>
         ((name, v) \<in> set props \<longrightarrow> eq_null v \<longrightarrow> map_of out (''attributes.'' @ name) = None)"
proof -
  have "map_of out (attribute_key name) = Some (Arr vs)" if "(name, Arr vs) \<in> set props"
    using entries_loop_keeps_array [of p r "[]" props out name vs] assms that
    by (simp add: convertToAttributes_def)
  moreover have "map_of out (attribute_key name) = None" if "(name, v) \<in> set props" "eq_null v"
    using entries_loop_omits [of p r "[]" props out name v] assms that
    by (simp add: convertToAttributes_def dropped_def)
  ultimately show ?thesis by (simp add: attribute_key_def)
qed

theorem convertToAttributes_array_never_omitted_witness:
  "convertToAttributes node_utc Json
     [(''e'', Arr []), (''n'', Arr [Null, Undefined]), (''m'', Arr [Num (Finite 1), Null]), (''u'', Undefined)]
     = Inr [(''attributes.e'', Arr []), (''attributes.n'', Arr [Null, Undefined]),
            (''attributes.m'', Arr [Num (Finite 1), Null])] \<and>
   distinct (map fst [(''e'', Arr []), (''n'', Arr [Null, Undefined]),
                      (''m'', Arr [Num (Finite 1), Null]), (''u'', Undefined :: jsval)]) \<and>
   map_of [(''attributes.e'', Arr []), (''attributes.n'', Arr [Null, Undefined]),
           (''attributes.m'', Arr [Num (Finite 1), Null])] ''attributes.n'' = Some (Arr [Null, Undefined]) \<and>
   eq_null Undefined \<and>
   map_of [(''attributes.e'', Arr []), (''attributes.n'', Arr [Null, Undefined]),
           (''attributes.m'', Arr [Num (Finite 1), Null])] ''attributes.u'' = None"
proof -
  let ?props = "[(''e'', Arr []), (''n'', Arr [Null, Undefined]),
                 (''m'', Arr [Num (Finite 1), Null]), (''u'', Undefined)]"
  let ?out = "[(''attributes.e'', Arr []), (''attributes.n'', Arr [Null, Undefined]),
               (''attributes.m'', Arr [Num (Finite 1), Null])]"
  have run: "convertToAttributes node_utc Json ?props = Inr ?out"
    by (simp add: convertToAttributes_def eq_null_def)
  have d: "distinct (map fst ?props)" by simp
  from convertToAttributes_array_never_omitted
         [OF run d, of "''n''" "[Null, Undefined]"]
  have a: "map_of ?out (''attributes.'' @ ''n'') = Some (Arr [Null, Undefined])" by simp
  from convertToAttributes_array_never_omitted
         [OF run d, of "''u''" _ Undefined]
  have b: "map_of ?out (''attributes.'' @ ''u'') = None" by (simp add: eq_null_def)
  from run d a b show ?thesis by (simp add: eq_null_def)
qed

section \<open>Properties of the message body converter\<close>

lemma Array_map_length: "Array_map f xs = Inr ys \<Longrightarrow> length ys = length xs"
  by (induction xs arbitrary: ys) (auto split: sum.splits)

lemma Array_map_nth: "Array_map f xs = Inr ys \<Longrightarrow> i < length xs \<Longrightarrow> f (xs ! i) = Inr (ys ! i)"
proof (induction xs arbitrary: ys i)
  case Nil
  then show ?case by simp
next
  case (Cons x xs)
  then show ?case by (cases i) (auto split: sum.splits)
qed

lemma Array_map_Inr_iff: "(\<exists>ys. Array_map f xs = Inr ys) \<longleftrightarrow> (\<forall>x \<in> set xs. \<exists>y. f x = Inr y)"
proof (induction xs)
  case Nil
  show ?case by simp
next
  case (Cons x xs)
  show ?case
  proof (cases "f x")
    case (Inl e)
    then show ?thesis by auto
  next
    case (Inr y)
    with Cons show ?thesis by (cases "Array_map f xs") auto
  qed
qed

text \<open>The loop from an even index on: the body so far, then one entry per index left.\<close>

lemma body_loop_entries:
  "even i \<Longrightarrow>
   body_loop p r msg i acc =
     (case Array_map (body_entry p r msg) [i..<length msg] of
        Inl e \<Rightarrow> Inl e
      | Inr xs \<Rightarrow> Inr (acc @ xs))"
proof (induction p r msg i acc rule: body_loop.induct)
  case (1 p r msg i acc)
  show ?case
  proof (cases "i < length msg")
    case False
    then show ?thesis by (simp add: body_loop.simps)
  next
    case True
    have here: "body_entry p r msg i = Inr (msg ! i)"
      using "1.prems" by (simp add: body_entry_def)
    show ?thesis
    proof (cases "length msg \<le> i + 1")
      case last: True
      with True have "[i..<length msg] = [i]"
        by (simp add: upt_rec)
      with True last here show ?thesis
        by (simp add: body_loop.simps [of p r msg i acc])
    next
      case more: False
      with True have range: "[i..<length msg] = i # Suc i # [i + 2..<length msg]"
        by (simp add: upt_rec)
      have next_entry: "body_entry p r msg (Suc i) = convertToString p r (msg ! (i + 1))"
        using "1.prems" by (simp add: body_entry_def)
      show ?thesis
      proof (cases "convertToString p r (msg ! (i + 1))")
        case (Inl e)
        with True more here next_entry range show ?thesis
          by (simp add: body_loop.simps [of p r msg i acc])
      next
        case (Inr s)
        have "body_loop p r msg (i + 2) ((acc @ [msg ! i]) @ [s]) =
                (case Array_map (body_entry p r msg) [i + 2..<length msg] of
                   Inl e \<Rightarrow> Inl e
                 | Inr xs \<Rightarrow> Inr (((acc @ [msg ! i]) @ [s]) @ xs))"
          using "1.IH" [OF True refl more Inr] "1.prems" by simp
        with True more here next_entry range Inr show ?thesis
          by (simp add: body_loop.simps [of p r msg i acc] split: sum.splits)
      qed
    qed
  qed
qed

lemma convertMessageToBody_entries:
  "convertMessageToBody p r msg = Array_map (body_entry p r msg) [0..<length msg]"
  by (simp add: convertMessageToBody_def body_loop_entries split: sum.splits)

text \<open>
  C4: the body has the literal of the message at each even index and the stringified
  value at each odd index, in the order of the message; its length is that of the
  message (so it is the input's length or one less, and never more), and a message of
  odd length ends with its last literal.  The converter returns a body exactly when the
  stringification of every value at an odd index returns.  The bodies of
  \<^verbatim>\<open>["a", 1, "b"]\<close> and \<^verbatim>\<open>["only"]\<close> under the JSON renderer are \<^verbatim>\<open>["a", "1", "b"]\<close>
  and \<^verbatim>\<open>["only"]\<close>.
\<close>

theorem convertMessageToBody_interleaves:
  "(\<forall>out. convertMessageToBody p r msg = Inr out \<longrightarrow>
      length out = length msg \<and>
      (length out = length msg \<or> length out + 1 = length msg) \<and>
      (\<forall>i < length msg.
         if even i then out ! i = msg ! i
         else convertToString p r (msg ! i) = Inr (out ! i))) \<and>
   ((\<exists>out. convertMessageToBody p r msg = Inr out) \<longleftrightarrow>
      (\<forall>i < length msg. odd i \<longrightarrow> (\<exists>s. convertToString p r (msg ! i) = Inr s))) \<and>
   convertMessageToBody p Json [Str ''a'', Num (Finite 1), Str ''b''] =
     Inr [Str ''a'', Str ''1'', Str ''b''] \<and>
   convertMessageToBody p Json [Str ''only''] = Inr [Str ''only'']"
proof (intro conjI allI impI)
  fix out
  assume out: "convertMessageToBody p r msg = Inr out"
  then have am: "Array_map (body_entry p r msg) [0..<length msg] = Inr out"
    by (simp add: convertMessageToBody_entries)
  from Array_map_length [OF am] show len: "length out = length msg" by simp
  then show "length out = length msg \<or> length out + 1 = length msg" by simp
  fix i
  assume i: "i < length msg"
  with Array_map_nth [OF am, of i] have "body_entry p r msg i = Inr (out ! i)" by simp
  then show "if even i then out ! i = msg ! i
             else convertToString p r (msg ! i) = Inr (out ! i)"
    by (auto simp: body_entry_def)
next
  have "(\<exists>out. convertMessageToBody p r msg = Inr out) \<longleftrightarrow>
        (\<forall>i \<in> set [0..<length msg]. \<exists>y. body_entry p r msg i = Inr y)"
    unfolding convertMessageToBody_entries by (rule Array_map_Inr_iff)
  also have "\<dots> \<longleftrightarrow> (\<forall>i < length msg. odd i \<longrightarrow> (\<exists>s. convertToString p r (msg ! i) = Inr s))"
    by (auto simp: body_entry_def)
  finally show "(\<exists>out. convertMessageToBody p r msg = Inr out) \<longleftrightarrow>
      (\<forall>i < length msg. odd i \<longrightarrow> (\<exists>s. convertToString p r (msg ! i) = Inr s))" .
next
  show "convertMessageToBody p Json [Str ''a'', Num (Finite 1), Str ''b''] =
     Inr [Str ''a'', Str ''1'', Str ''b'']"
    by (simp add: convertMessageToBody_def body_loop.simps convertToString_def show_int_def
        digits.simps)
next
  show "convertMessageToBody p Json [Str ''only''] = Inr [Str ''only'']"
    by (simp add: convertMessageToBody_def body_loop.simps)
qed

theorem convertMessageToBody_interleaves_witness:
  "convertMessageToBody node_utc Json [Str ''x='', Bool True, Str '','', Null] =
     Inr [Str ''x='', Str ''true'', Str '','', Null] \<and>
   length [Str ''x='', Str ''true'', Str '','', Null] = length [Str ''x='', Bool True, Str '','', Null] \<and>
   (1::nat) < length [Str ''x='', Bool True, Str '','', Null] \<and> odd (1::nat) \<and>
   convertToString node_utc Json ([Str ''x='', Bool True, Str '','', Null] ! 1) =
     Inr ([Str ''x='', Str ''true'', Str '','', Null] ! 1) \<and>
   (0::nat) < length [Str ''x='', Bool True, Str '','', Null] \<and> even (0::nat) \<and>
   [Str ''x='', Str ''true'', Str '','', Null] ! 0 = [Str ''x='', Bool True, Str '','', Null] ! 0"
proof -
  let ?msg = "[Str ''x='', Bool True, Str '','', Null]"
  let ?out = "[Str ''x='', Str ''true'', Str '','', Null]"
  have run: "convertMessageToBody node_utc Json ?msg = Inr ?out"
    by (simp add: convertMessageToBody_def body_loop.simps convertToString_def
        Boolean_toString_def)
  from convertMessageToBody_interleaves [of node_utc Json ?msg] run
  have all: "\<forall>i < length ?msg.
         if even i then ?out ! i = ?msg ! i
         else convertToString node_utc Json (?msg ! i) = Inr (?out ! i)"
    by blast
  from all [rule_format, of 1] all [rule_format, of 0] run show ?thesis by simp
qed

section \<open>Properties of the sink\<close>

lemma reserved_prefix_iff:
  "at_index cat 0 = Some ''logtape'' \<and> at_index cat 1 = Some ''meta'' \<and>
   at_index cat 2 = Some ''otel'' \<longleftrightarrow> reserved_prefix cat"
proof (cases cat)
  case Nil
  then show ?thesis by (simp add: at_index_def reserved_prefix_def)
next
  case (Cons a as)
  note c1 = this
  show ?thesis
  proof (cases as)
    case Nil
    with c1 show ?thesis by (simp add: at_index_def reserved_prefix_def)
  next
    case (Cons b bs)
    note c2 = this
    show ?thesis
    proof (cases bs)
      case Nil
      with c1 c2 show ?thesis by (simp add: at_index_def reserved_prefix_def)
    next
      case (Cons c cs)
      with c1 c2 show ?thesis by (simp add: at_index_def reserved_prefix_def)
    qed
  qed
qed

lemma sink_reserved:
  "reserved_prefix (category rec) \<Longrightarrow> sink p opts rec emitted = Inr emitted"
  using reserved_prefix_iff [of "category rec"] by (simp add: sink_def)

text \<open>The sink on a record outside the reserved category, step by step.\<close>

lemma sink_other:
  "\<not> reserved_prefix (category rec) \<Longrightarrow>
   sink p opts rec emitted =
     (case convertToAttributes p (chosen_renderer opts) (properties rec) of
        Inl e \<Rightarrow> Inl e
      | Inr attrs0 \<Rightarrow>
          (case convertMessageToBody p (chosen_renderer opts) (message rec) of
             Inl e \<Rightarrow> Inl e
           | Inr fragments \<Rightarrow>
               (case (if messageType opts = Some ArrayMessage then Inr (Arr fragments)
                      else (case join p [] (map null_text fragments) of
                              Inl e \<Rightarrow> Inl e
                            | Inr s \<Rightarrow> Inr (Str s))) of
                  Inl e \<Rightarrow> Inl e
                | Inr b \<Rightarrow>
                    Inr (emitted @
                         [\<lparr>severityNumber = mapLevelToSeverityNumber (level rec),
                           severityText = level rec,
                           body = b,
                           attributes = AList.update ''category'' (Arr (map Str (category rec))) attrs0,
                           timestamp = new_Date (LogRecord.timestamp rec)\<rparr>]))))"
proof -
  assume "\<not> reserved_prefix (category rec)"
  then have "\<not> (at_index (category rec) 0 = Some ''logtape'' \<and>
               at_index (category rec) 1 = Some ''meta'' \<and>
               at_index (category rec) 2 = Some ''otel'')"
    using reserved_prefix_iff [of "category rec"] by blast
  then show ?thesis
    by (simp only: sink_def Let_def chosen_renderer_def if_False)
qed

lemma sink_emitted:
  assumes "\<not> reserved_prefix (category rec)"
    and "sink p opts rec emitted = Inr out"
  shows "\<exists>attrs0 b. out = emitted @
           [\<lparr>severityNumber = mapLevelToSeverityNumber (level rec),
             severityText = level rec,
             body = b,
             attributes = AList.update ''category'' (Arr (map Str (category rec))) attrs0,
             timestamp = new_Date (LogRecord.timestamp rec)\<rparr>]"
  using assms(2) unfolding sink_other [OF assms(1)]
  by (auto split: sum.splits if_splits)

lemma intercalate_empty: "intercalate [] ss = concat ss"
  by (induction "[] :: string" ss rule: intercalate.induct) simp_all

lemma join_elements_fragments:
  "join_elements p (map null_text (map fragment_value fs)) = Inr (map fragment_text fs)"
proof (induction fs)
  case Nil
  show ?case by simp
next
  case (Cons f fs)
  then show ?case by (cases f) (simp_all add: null_text_def eq_null_def)
qed

lemma join_fragments:
  "join p [] (map null_text (map fragment_value fs)) = Inr (concat (map fragment_text fs))"
  by (simp add: join_def join_elements_fragments intercalate_empty del: map_map)

text \<open>A message whose literals are strings has a body of the declared type.\<close>

lemma convertMessageToBody_fragments:
  assumes "\<forall>i < length msg. even i \<longrightarrow> (\<exists>s. msg ! i = Str s)"
    and "convertMessageToBody p r msg = Inr out"
  shows "\<exists>fs. out = map fragment_value fs"
proof -
  from assms(2) have am: "Array_map (body_entry p r msg) [0..<length msg] = Inr out"
    by (simp add: convertMessageToBody_entries)
  have len: "length out = length msg" using Array_map_length [OF am] by simp
  have "\<exists>f. out ! i = fragment_value f" if "i < length out" for i
  proof -
    from that len Array_map_nth [OF am, of i] have e: "body_entry p r msg i = Inr (out ! i)"
      by simp
    show ?thesis
    proof (cases "even i")
      case True
      with assms(1) that len obtain s where "msg ! i = Str s" by auto
      with e True have "out ! i = fragment_value (Text s)" by (simp add: body_entry_def)
      then show ?thesis ..
    next
      case False
      with e show ?thesis by (auto simp: body_entry_def dest: convertToString_fragment)
    qed
  qed
  then have "\<forall>x \<in> set out. \<exists>f. x = fragment_value f"
    by (auto simp: in_set_conv_nth)
  then show ?thesis by (simp add: ex_map_conv)
qed

text \<open>
  C2, as stated, fails: a record of the category \<^verbatim>\<open>["app"]\<close> with the property
  \<^verbatim>\<open>{n: 10n}\<close> is outside the reserved category, yet under the JSON renderer the sink
  emits nothing: stringifying the BigInt raises a \<^verbatim>\<open>TypeError\<close>, which leaves the sink.
\<close>

theorem sink_emits_unless_reserved_counterexample:
  "\<not> reserved_prefix [''app''] \<and>
   sink node_utc \<lparr>messageType = None, objectRenderer = Some Json\<rparr>
     \<lparr>category = [''app''], level = ''info'', message = [Str ''started''],
      timestamp = Finite 0, properties = [(''n'', BigInt 10)]\<rparr> [] = Inl TypeError"
  by (simp add: reserved_prefix_def sink_def at_index_def convertToAttributes_def
      convertToString_def JSON_stringify_def eq_null_def)

text \<open>
  C2, amended: a record whose category begins with the three segments logtape, meta,
  otel is dropped: nothing is emitted and nothing is raised, whatever its level and
  content.  For any other record the sink either emits exactly one normalized record or
  raises the error of a conversion and emits nothing; it emits exactly when the
  conversion of the properties, the conversion of the message and, for a string body,
  the join of the fragments return.
\<close>

theorem sink_emits_unless_reserved:
  "(reserved_prefix (category rec) \<longrightarrow> sink p opts rec emitted = Inr emitted) \<and>
   (\<not> reserved_prefix (category rec) \<longrightarrow>
      (\<forall>out. sink p opts rec emitted = Inr out \<longrightarrow> (\<exists>r. out = emitted @ [r])) \<and>
      ((\<exists>out. sink p opts rec emitted = Inr out) \<longleftrightarrow>
         (\<exists>attrs. convertToAttributes p (chosen_renderer opts) (properties rec) = Inr attrs) \<and>
         (\<exists>frags. convertMessageToBody p (chosen_renderer opts) (message rec) = Inr frags \<and>
            (messageType opts = Some ArrayMessage \<or>
             (\<exists>s. join p [] (map null_text frags) = Inr s)))))"
proof (intro conjI impI allI)
  assume "reserved_prefix (category rec)"
  then show "sink p opts rec emitted = Inr emitted" by (rule sink_reserved)
next
  fix out
  assume "\<not> reserved_prefix (category rec)" "sink p opts rec emitted = Inr out"
  from sink_emitted [OF this] show "\<exists>r. out = emitted @ [r]" by blast
next
  assume other: "\<not> reserved_prefix (category rec)"
  show "(\<exists>out. sink p opts rec emitted = Inr out) \<longleftrightarrow>
         (\<exists>attrs. convertToAttributes p (chosen_renderer opts) (properties rec) = Inr attrs) \<and>
         (\<exists>frags. convertMessageToBody p (chosen_renderer opts) (message rec) = Inr frags \<and>
            (messageType opts = Some ArrayMessage \<or>
             (\<exists>s. join p [] (map null_text frags) = Inr s)))"
    unfolding sink_other [OF other]
    by (auto split: sum.splits if_splits)
qed

theorem sink_emits_unless_reserved_witness:
  "reserved_prefix [''logtape'', ''meta'', ''otel'', ''exporter''] \<and>
   sink node_utc \<lparr>messageType = None, objectRenderer = None\<rparr>
     \<lparr>category = [''logtape'', ''meta'', ''otel'', ''exporter''], level = ''fatal'',
      message = [Str ''failed''], timestamp = Finite 0, properties = []\<rparr> [] = Inr [] \<and>
   \<not> reserved_prefix [''logtape'', ''meta'', ''other''] \<and>
   sink node_utc \<lparr>messageType = None, objectRenderer = None\<rparr>
     \<lparr>category = [''logtape'', ''meta'', ''other''], level = ''info'',
      message = [Str ''ok''], timestamp = Finite 0, properties = []\<rparr> [] =
     Inr ([] @ [\<lparr>severityNumber = INFO, severityText = ''info'', body = Str ''ok'',
                 attributes = [(''category'', Arr [Str ''logtape'', Str ''meta'', Str ''other''])],
                 timestamp = ValidDate 0\<rparr>])"
proof -
  let ?opts = "\<lparr>messageType = None, objectRenderer = None\<rparr>"
  let ?dropped = "\<lparr>category = [''logtape'', ''meta'', ''otel'', ''exporter''], level = ''fatal'',
      message = [Str ''failed''], timestamp = Finite 0, properties = []\<rparr>"
  let ?other = "\<lparr>category = [''logtape'', ''meta'', ''other''], level = ''info'',
      message = [Str ''ok''], timestamp = Finite 0, properties = []\<rparr>"
  have r: "reserved_prefix (category ?dropped)" by (simp add: reserved_prefix_def)
  have o: "\<not> reserved_prefix (category ?other)" by (simp add: reserved_prefix_def)
  have run: "sink node_utc ?opts ?other [] =
     Inr ([] @ [\<lparr>severityNumber = INFO, severityText = ''info'', body = Str ''ok'',
                 attributes = [(''category'', Arr [Str ''logtape'', Str ''meta'', Str ''other''])],
                 timestamp = ValidDate 0\<rparr>])"
    by (simp add: sink_def at_index_def convertToAttributes_def convertMessageToBody_def
        body_loop.simps join_def null_text_def eq_null_def mapLevelToSeverityNumber_def)
  from sink_emits_unless_reserved [of ?dropped node_utc ?opts "[]"] r
  have "sink node_utc ?opts ?dropped [] = Inr []" by blast
  moreover from sink_emits_unless_reserved [of ?other node_utc ?opts "[]"] o run
  have "\<exists>r. [] @ [\<lparr>severityNumber = INFO, severityText = ''info'', body = Str ''ok'',
                 attributes = [(''category'', Arr [Str ''logtape'', Str ''meta'', Str ''other''])],
                 timestamp = ValidDate 0\<rparr>] = [] @ [r]" by blast
  ultimately show ?thesis using r o run by simp
qed

text \<open>
  C5: unless the message type is the array one (so also by default), the body of the
  emitted record is the string made of the body fragments in order, a null fragment
  standing as the text null and an undefined one as the text undefined.
\<close>

theorem sink_string_body:
  assumes "messageType opts \<noteq> Some ArrayMessage"
    and "\<not> reserved_prefix (category rec)"
    and "convertToAttributes p (chosen_renderer opts) (properties rec) = Inr attrs"
    and "convertMessageToBody p (chosen_renderer opts) (message rec) = Inr (map fragment_value fs)"
  shows "\<exists>r. sink p opts rec emitted = Inr (emitted @ [r]) \<and>
             body r = Str (concat (map fragment_text fs))"
  unfolding sink_other [OF assms(2)] using assms(1,3,4)
  by (simp add: join_fragments del: map_map)

theorem sink_string_body_witness:
  "messageType \<lparr>messageType = None, objectRenderer = Some Json\<rparr> \<noteq> Some ArrayMessage \<and>
   \<not> reserved_prefix [''app''] \<and>
   convertToAttributes node_utc Json [] = Inr [] \<and>
   convertMessageToBody node_utc Json [Str ''x='', Null, Str '',y='', Undefined] =
     Inr (map fragment_value [Text ''x='', NullFragment, Text '',y='', UndefinedFragment]) \<and>
   concat (map fragment_text [Text ''x='', NullFragment, Text '',y='', UndefinedFragment]) =
     ''x=null,y=undefined'' \<and>
   (\<exists>r. sink node_utc \<lparr>messageType = None, objectRenderer = Some Json\<rparr>
          \<lparr>category = [''app''], level = ''info'',
           message = [Str ''x='', Null, Str '',y='', Undefined],
           timestamp = Finite 0, properties = []\<rparr> [] = Inr ([] @ [r]) \<and>
        body r = Str ''x=null,y=undefined'')"
proof -
  let ?opts = "\<lparr>messageType = None, objectRenderer = Some Json\<rparr>"
  let ?rec = "\<lparr>category = [''app''], level = ''info'',
           message = [Str ''x='', Null, Str '',y='', Undefined],
           timestamp = Finite 0, properties = []\<rparr>"
  have m: "messageType ?opts \<noteq> Some ArrayMessage" by simp
  have c: "\<not> reserved_prefix (category ?rec)" by (simp add: reserved_prefix_def)
  have a: "convertToAttributes node_utc (chosen_renderer ?opts) (properties ?rec) = Inr []"
    by (simp add: convertToAttributes_def)
  have b: "convertMessageToBody node_utc (chosen_renderer ?opts) (message ?rec) =
     Inr (map fragment_value [Text ''x='', NullFragment, Text '',y='', UndefinedFragment])"
    by (simp add: convertMessageToBody_def body_loop.simps convertToString_def chosen_renderer_def)
  from sink_string_body [OF m c a b, of "[]"] m c a b show ?thesis
    by (simp add: chosen_renderer_def)
qed

text \<open>
  C9, as stated, fails: a timestamp of 10^16 milliseconds is beyond the range of a date,
  so the emitted record has an invalid date, which reads back as \<^verbatim>\<open>NaN\<close>.
\<close>

theorem sink_timestamp_round_trip_counterexample:
  "sink node_utc \<lparr>messageType = None, objectRenderer = Some Json\<rparr>
     \<lparr>category = [''app''], level = ''info'', message = [Str ''late''],
      timestamp = Finite 10000000000000000, properties = []\<rparr> [] =
     Inr [\<lparr>severityNumber = INFO, severityText = ''info'', body = Str ''late'',
           attributes = [(''category'', Arr [Str ''app''])], timestamp = InvalidDate\<rparr>] \<and>
   getTime InvalidDate \<noteq> Finite 10000000000000000"
  by (simp add: sink_def at_index_def convertToAttributes_def convertMessageToBody_def
      body_loop.simps join_def null_text_def eq_null_def mapLevelToSeverityNumber_def)

text \<open>
  C9, amended: for a whole number of milliseconds of magnitude at most 8.64e15 (the range
  of a date), the timestamp of the emitted record, read back in milliseconds, is the
  timestamp of the log record.
\<close>

theorem sink_timestamp_round_trip:
  assumes "sink p opts rec emitted = Inr (emitted @ [r])"
    and "LogRecord.timestamp rec = Finite t"
    and "\<bar>t\<bar> \<le> 8640000000000000"
  shows "getTime (OTLogRecord.timestamp r) = LogRecord.timestamp rec"
proof -
  have other: "\<not> reserved_prefix (category rec)"
    using assms(1) sink_reserved [of rec p opts emitted] by auto
  from sink_emitted [OF other assms(1)]
  have "OTLogRecord.timestamp r = new_Date (LogRecord.timestamp rec)" by auto
  with assms(2,3) show ?thesis by simp
qed

theorem sink_timestamp_round_trip_witness:
  "sink node_utc \<lparr>messageType = None, objectRenderer = Some Json\<rparr>
     \<lparr>category = [''app''], level = ''info'', message = [Str ''now''],
      timestamp = Finite 1700000000000, properties = []\<rparr> [] =
     Inr ([] @ [\<lparr>severityNumber = INFO, severityText = ''info'', body = Str ''now'',
           attributes = [(''category'', Arr [Str ''app''])], timestamp = ValidDate 1700000000000\<rparr>]) \<and>
   \<bar>1700000000000 :: int\<bar> \<le> 8640000000000000 \<and>
   getTime (ValidDate 1700000000000) = Finite 1700000000000"
proof -
  let ?rec = "\<lparr>category = [''app''], level = ''info'', message = [Str ''now''],
      timestamp = Finite 1700000000000, properties = []\<rparr>"
  let ?r = "\<lparr>severityNumber = INFO, severityText = ''info'', body = Str ''now'',
           attributes = [(''category'', Arr [Str ''app''])], timestamp = ValidDate 1700000000000\<rparr>"
  have run: "sink node_utc \<lparr>messageType = None, objectRenderer = Some Json\<rparr> ?rec [] = Inr ([] @ [?r])"
    by (simp add: sink_def at_index_def convertToAttributes_def convertMessageToBody_def
        body_loop.simps join_def null_text_def eq_null_def mapLevelToSeverityNumber_def)
  have t: "LogRecord.timestamp ?rec = Finite 1700000000000" by simp
  have b: "\<bar>1700000000000 :: int\<bar> \<le> 8640000000000000" by simp
  from sink_timestamp_round_trip [OF run t b] run b show ?thesis by simp
qed

section \<open>Properties of the diagnostic logger adaptor\<close>

lemma replaceAll_Cons:
  "replaceAll c rep (x # xs) = (if x = c then rep else [x]) @ replaceAll c rep xs"
  by (simp add: replaceAll_def)

lemma replaceAll_append:
  "replaceAll c rep (xs @ ys) = replaceAll c rep xs @ replaceAll c rep ys"
  by (simp add: replaceAll_def)

lemma replaceAll_Nil [simp]: "replaceAll c rep [] = []"
  by (simp add: replaceAll_def)

lemma escape_Cons:
  "escape (x # xs) = (if x = CHR ''{'' \<or> x = CHR ''}'' then [x, x] else [x]) @ escape xs"
  by (simp add: escape_def replaceAll_Cons replaceAll_append)

lemma escape_doubles: "escape msg = doubled_delimiters msg"
proof (induction msg)
  case Nil
  show ?case by (simp add: escape_def replaceAll_def doubled_delimiters_def)
next
  case (Cons x xs)
  then show ?case by (simp add: escape_Cons doubled_delimiters_def)
qed

text \<open>
  C8: each of the five methods of the adaptor logs exactly one record, in the category
  logtape, meta, otel, at the level error, warning, info, debug and debug, for
  \<^verbatim>\<open>error\<close>, \<^verbatim>\<open>warn\<close>, \<^verbatim>\<open>info\<close>, \<^verbatim>\<open>debug\<close> and \<^verbatim>\<open>verbose\<close>.  Its template is the
  message with every brace doubled, followed by the slot \<^verbatim>\<open>: {values}\<close>, and its one
  property \<^verbatim>\<open>values\<close> is the array of the further arguments.
\<close>

theorem DiagLoggerAdaptor_logs_once:
  "diag_error new_DiagLoggerAdaptor msg vals log =
     log @ [\<lparr>logged_category = [''logtape'', ''meta'', ''otel''], logged_level = ''error'',
              logged_template = doubled_delimiters msg @ '': {values}'',
              logged_properties = [(''values'', Arr vals)]\<rparr>] \<and>
   diag_warn new_DiagLoggerAdaptor msg vals log =
     log @ [\<lparr>logged_category = [''logtape'', ''meta'', ''otel''], logged_level = ''warning'',
              logged_template = doubled_delimiters msg @ '': {values}'',
              logged_properties = [(''values'', Arr vals)]\<rparr>] \<and>
   diag_info new_DiagLoggerAdaptor msg vals log =
     log @ [\<lparr>logged_category = [''logtape'', ''meta'', ''otel''], logged_level = ''info'',
              logged_template = doubled_delimiters msg @ '': {values}'',
              logged_properties = [(''values'', Arr vals)]\<rparr>] \<and>
   diag_debug new_DiagLoggerAdaptor msg vals log =
     log @ [\<lparr>logged_category = [''logtape'', ''meta'', ''otel''], logged_level = ''debug'',
              logged_template = doubled_delimiters msg @ '': {values}'',
              logged_properties = [(''values'', Arr vals)]\<rparr>] \<and>
   diag_verbose new_DiagLoggerAdaptor msg vals log =
     log @ [\<lparr>logged_category = [''logtape'', ''meta'', ''otel''], logged_level = ''debug'',
              logged_template = doubled_delimiters msg @ '': {values}'',
              logged_properties = [(''values'', Arr vals)]\<rparr>]"
  by (simp add: diag_error_def diag_warn_def diag_info_def diag_debug_def diag_verbose_def
      Logger_error_def Logger_warn_def Logger_info_def Logger_debug_def Logger_log_def
      new_DiagLoggerAdaptor_def getLogger_def escape_doubles)

theorem DiagLoggerAdaptor_logs_once_witness:
  "diag_warn new_DiagLoggerAdaptor ''bad {config}'' [Num (Finite 42), Str ''x''] [] =
     [\<lparr>logged_category = [''logtape'', ''meta'', ''otel''], logged_level = ''warning'',
       logged_template = ''bad {{config}}: {values}'',
       logged_properties = [(''values'', Arr [Num (Finite 42), Str ''x''])]\<rparr>]"
  using DiagLoggerAdaptor_logs_once [of "''bad {config}''" "[Num (Finite 42), Str ''x'']" "[]"]
  by (simp add: doubled_delimiters_def)

end
